theory Spec2Isabelle
  imports Main "HOL-Library.Word"
begin

section \<open>The Gazell shim: data model\<close>

text \<open>
  A shallow embedding of \<^verbatim>\<open>gazell_shim.c\<close> and \<^verbatim>\<open>gazell_shim.h\<close>.
  The shim keeps one static struct, \<^verbatim>\<open>gz_state\<close>, and drives the Nordic Gazell
  engine through the \<^verbatim>\<open>nrf_gzll_*\<close> functions. The engine is not part of the
  repository: it is a parameter of every operation below.
\<close>

type_synonym u8 = "8 word"
type_synonym u16 = "16 word"
type_synonym u32 = "32 word"

text \<open>\<^verbatim>\<open>#define MAX_PAYLOAD_LENGTH 32\<close>\<close>

abbreviation (input) MAX_PAYLOAD_LENGTH :: "'a::numeral" where
  "MAX_PAYLOAD_LENGTH \<equiv> 32"

text \<open>\<^verbatim>\<open>gz_error_t\<close>, with the integer codes of the header.\<close>

datatype gz_error_t =
    GZ_OK
  | GZ_ERR_SEND_FAILED
  | GZ_ERR_RECEIVE_FAILED
  | GZ_ERR_FRAME_TOO_LARGE
  | GZ_ERR_NOT_INITIALIZED
  | GZ_ERR_BUSY
  | GZ_ERR_INVALID_CONFIG
  | GZ_ERR_HARDWARE

fun gz_error_code :: "gz_error_t \<Rightarrow> int" where
  "gz_error_code GZ_OK = 0"
| "gz_error_code GZ_ERR_SEND_FAILED = -1"
| "gz_error_code GZ_ERR_RECEIVE_FAILED = -2"
| "gz_error_code GZ_ERR_FRAME_TOO_LARGE = -3"
| "gz_error_code GZ_ERR_NOT_INITIALIZED = -4"
| "gz_error_code GZ_ERR_BUSY = -5"
| "gz_error_code GZ_ERR_INVALID_CONFIG = -6"
| "gz_error_code GZ_ERR_HARDWARE = -7"

text \<open>
  \<^verbatim>\<open>gz_config_t\<close>. \<^verbatim>\<open>tx_power\<close> is an \<^verbatim>\<open>int8_t\<close>: the word is read
  with \<open>sint\<close>. \<^verbatim>\<open>base_address\<close> is a \<^verbatim>\<open>uint8_t[4]\<close>.
\<close>

record gz_config_t =
  channel :: u8
  data_rate :: u8
  tx_power :: u8
  max_retries :: u8
  ack_timeout_us :: u16
  base_address :: "u8 list"
  address_prefix :: u8

text \<open>
  \<^verbatim>\<open>gz_mode_t\<close> is a C enum, that is an integer: a caller can pass a value that is
  neither of its two enumerators, and \<^verbatim>\<open>gz_set_mode\<close> has a branch for that.
\<close>

type_synonym gz_mode_t = u32

abbreviation (input) GZ_MODE_DEVICE :: gz_mode_t where
  "GZ_MODE_DEVICE \<equiv> 0"

abbreviation (input) GZ_MODE_HOST :: gz_mode_t where
  "GZ_MODE_HOST \<equiv> 1"

text \<open>The static struct \<^verbatim>\<open>gz_state\<close>.\<close>

record gz_state_t =
  initialized :: bool
  mode :: gz_mode_t
  rx_buffer :: "u8 list"
  rx_length :: u8
  rx_ready :: bool
  tx_success :: bool
  tx_failed :: bool

text \<open>\<^verbatim>\<open>gz_state = {0}\<close>: every field zero, so the mode starts as \<^verbatim>\<open>GZ_MODE_DEVICE\<close>.\<close>

definition gz_state_zero :: gz_state_t where
  "gz_state_zero =
     \<lparr>initialized = False, mode = 0, rx_buffer = replicate MAX_PAYLOAD_LENGTH 0,
      rx_length = 0, rx_ready = False, tx_success = False, tx_failed = False\<rparr>"

section \<open>The engine\<close>

text \<open>
  The engine's types and the calls the shim makes, as the shim writes them. A call carries
  the values of its arguments; a pointer argument carries the bytes it points to.
\<close>

datatype nrf_gzll_mode_t = NRF_GZLL_MODE_DEVICE | NRF_GZLL_MODE_HOST

datatype nrf_gzll_datarate_t =
  NRF_GZLL_DATARATE_250KBIT | NRF_GZLL_DATARATE_1MBIT | NRF_GZLL_DATARATE_2MBIT

datatype nrf_call =
    Nrf_gzll_init nrf_gzll_mode_t
  | Nrf_gzll_set_base_address_0 u32
  | Nrf_gzll_set_address_prefix_byte u32 u8
  | Nrf_gzll_set_tx_power int
  | Nrf_gzll_set_datarate nrf_gzll_datarate_t
  | Nrf_gzll_set_channel_table "u8 list" u32
  | Nrf_gzll_set_channel_table_size u32
  | Nrf_gzll_set_max_tx_attempts u16
  | Nrf_gzll_set_timeslot_period u32
  | Nrf_gzll_disable
  | Nrf_gzll_is_enabled
  | Nrf_gzll_enable
  | Nrf_gzll_add_packet_to_tx_fifo u32 "u8 list" u32
  | Nrf_gzll_fetch_packet_from_rx_fifo u32 "u8 list" u8
  | Nrf_gzll_get_tx_fifo_packet_count u32
  | Nrf_gzll_flush_tx_fifo u32
  | Nrf_gzll_flush_rx_fifo u32

text \<open>
  What a call returns. \<open>Nrf_packet ok buf len\<close> is the answer of
  \<^verbatim>\<open>nrf_gzll_fetch_packet_from_rx_fifo\<close>: its result, and what it left in the buffer
  and in the length that were passed by pointer.
\<close>

datatype nrf_ret =
    Nrf_void
  | Nrf_bool bool
  | Nrf_count int
  | Nrf_packet bool "u8 list" u8

text \<open>The callbacks the engine raises from its interrupt, with their pipe.\<close>

datatype nrf_event =
    Device_tx_success u32
  | Device_tx_failed u32
  | Host_rx_data_ready u32
  | Disabled

text \<open>
  An engine over a state \<open>'e\<close>: how it answers a call, which callbacks its interrupt
  raises when the application gives it the chance, and the constant
  \<^verbatim>\<open>NRF_GZLL_CONST_FIFO_LENGTH\<close> of its header.
\<close>

record 'e nrf_engine =
  nrf_exec :: "nrf_call \<Rightarrow> 'e \<Rightarrow> nrf_ret \<times> 'e"
  nrf_irq :: "'e \<Rightarrow> nrf_event list \<times> 'e"
  NRF_GZLL_CONST_FIFO_LENGTH :: int

text \<open>
  The whole state: the shim's struct, the engine's state, and the calls made to the
  engine so far, oldest first.
\<close>

record 'e world =
  gz_state :: gz_state_t
  nrf_state :: 'e
  nrf_trace :: "nrf_call list"

definition nrf :: "'e nrf_engine \<Rightarrow> nrf_call \<Rightarrow> 'e world \<Rightarrow> nrf_ret \<times> 'e world" where
  "nrf eng c w =
     (let (r, e') = nrf_exec eng c (nrf_state w)
      in (r, w\<lparr>nrf_state := e', nrf_trace := nrf_trace w @ [c]\<rparr>))"

text \<open>Reading an answer; an answer of another kind reads as false, or as no count.\<close>

fun ret_bool :: "nrf_ret \<Rightarrow> bool" where
  "ret_bool (Nrf_bool b) = b"
| "ret_bool _ = False"

fun ret_count :: "nrf_ret \<Rightarrow> int" where
  "ret_count (Nrf_count n) = n"
| "ret_count _ = 0"

section \<open>Callbacks\<close>

definition nrf_gzll_device_tx_success :: "u32 \<Rightarrow> 'e world \<Rightarrow> 'e world" where
  "nrf_gzll_device_tx_success pipe w = w\<lparr>gz_state := (gz_state w)\<lparr>tx_success := True\<rparr>\<rparr>"

definition nrf_gzll_device_tx_failed :: "u32 \<Rightarrow> 'e world \<Rightarrow> 'e world" where
  "nrf_gzll_device_tx_failed pipe w = w\<lparr>gz_state := (gz_state w)\<lparr>tx_failed := True\<rparr>\<rparr>"

definition nrf_gzll_host_rx_data_ready :: "'e nrf_engine \<Rightarrow> u32 \<Rightarrow> 'e world \<Rightarrow> 'e world" where
  "nrf_gzll_host_rx_data_ready eng pipe w =
     (let w1 = w\<lparr>gz_state := (gz_state w)\<lparr>rx_length := MAX_PAYLOAD_LENGTH\<rparr>\<rparr>;
          (r, w2) = nrf eng (Nrf_gzll_fetch_packet_from_rx_fifo pipe
                       (rx_buffer (gz_state w1)) (rx_length (gz_state w1))) w1
      in case r of
           Nrf_packet ok buf len \<Rightarrow>
             (let w3 = w2\<lparr>gz_state := (gz_state w2)\<lparr>rx_buffer := buf, rx_length := len\<rparr>\<rparr>
              in if ok then w3\<lparr>gz_state := (gz_state w3)\<lparr>rx_ready := True\<rparr>\<rparr> else w3)
         | _ \<Rightarrow> w2)"

definition nrf_gzll_disabled :: "'e world \<Rightarrow> 'e world" where
  "nrf_gzll_disabled w = w"

fun callback :: "'e nrf_engine \<Rightarrow> nrf_event \<Rightarrow> 'e world \<Rightarrow> 'e world" where
  "callback eng (Device_tx_success pipe) w = nrf_gzll_device_tx_success pipe w"
| "callback eng (Device_tx_failed pipe) w = nrf_gzll_device_tx_failed pipe w"
| "callback eng (Host_rx_data_ready pipe) w = nrf_gzll_host_rx_data_ready eng pipe w"
| "callback eng Disabled w = nrf_gzll_disabled w"

fun callbacks :: "'e nrf_engine \<Rightarrow> nrf_event list \<Rightarrow> 'e world \<Rightarrow> 'e world" where
  "callbacks eng [] w = w"
| "callbacks eng (ev # evs) w = callbacks eng evs (callback eng ev w)"

text \<open>
  A point where the interrupt may run: the engine says which callbacks it raises, and
  they run in that order. The operations below run without interruption except in the
  wait loop of \<^verbatim>\<open>gz_send\<close>, which reads the two \<^verbatim>\<open>volatile\<close> flags to see a
  callback happen; between two operations, callbacks are steps of their own.
\<close>

definition interrupts :: "'e nrf_engine \<Rightarrow> 'e world \<Rightarrow> 'e world" where
  "interrupts eng w =
     (let (evs, e') = nrf_irq eng (nrf_state w)
      in callbacks eng evs (w\<lparr>nrf_state := e'\<rparr>))"

section \<open>Operations\<close>

subsection \<open>\<^verbatim>\<open>gz_init\<close>\<close>

text \<open>
  The unused local \<^verbatim>\<open>prefix[8]\<close> is left out. The \<^verbatim>\<open>default\<close> branch of the
  data-rate switch is kept, after the calls that precede it.
\<close>

definition gz_init :: "'e nrf_engine \<Rightarrow> gz_config_t option \<Rightarrow> 'e world \<Rightarrow> gz_error_t \<times> 'e world" where
  "gz_init eng config w =
     (case config of
        None \<Rightarrow> (GZ_ERR_INVALID_CONFIG, w)
      | Some c \<Rightarrow>
          if channel c > 100 then (GZ_ERR_INVALID_CONFIG, w)
          else if data_rate c > 2 then (GZ_ERR_INVALID_CONFIG, w)
          else if max_retries c > 15 then (GZ_ERR_INVALID_CONFIG, w)
          else if ack_timeout_us c < 250 \<or> ack_timeout_us c > 4000 then (GZ_ERR_INVALID_CONFIG, w)
          else
            let w0 = w\<lparr>gz_state := (gz_state w)\<lparr>initialized := False, rx_ready := False,
                                                  tx_success := False, tx_failed := False\<rparr>\<rparr>;
                (r, w1) = nrf eng (Nrf_gzll_init NRF_GZLL_MODE_DEVICE) w0
            in if \<not> ret_bool r then (GZ_ERR_HARDWARE, w1)
               else
                 let base_addr =
                       or (push_bit 24 (ucast (base_address c ! 3)))
                         (or (push_bit 16 (ucast (base_address c ! 2)))
                           (or (push_bit 8 (ucast (base_address c ! 1)))
                               (ucast (base_address c ! 0))));
                     w2 = snd (nrf eng (Nrf_gzll_set_base_address_0 base_addr) w1);
                     w3 = snd (nrf eng (Nrf_gzll_set_address_prefix_byte 0 (address_prefix c)) w2);
                     w4 = snd (nrf eng (Nrf_gzll_set_tx_power (sint (tx_power c))) w3);
                     rate = (if data_rate c = 0 then Some NRF_GZLL_DATARATE_250KBIT
                             else if data_rate c = 1 then Some NRF_GZLL_DATARATE_1MBIT
                             else if data_rate c = 2 then Some NRF_GZLL_DATARATE_2MBIT
                             else None)
                 in case rate of
                      None \<Rightarrow> (GZ_ERR_INVALID_CONFIG, w4)
                    | Some rt \<Rightarrow>
                        let w5 = snd (nrf eng (Nrf_gzll_set_datarate rt) w4);
                            w6 = snd (nrf eng (Nrf_gzll_set_channel_table [channel c] 1) w5);
                            w7 = snd (nrf eng (Nrf_gzll_set_channel_table_size 1) w6);
                            w8 = snd (nrf eng (Nrf_gzll_set_max_tx_attempts (ucast (max_retries c))) w7);
                            timeslot = (ucast (ack_timeout_us c) :: u32) div 500;
                            timeslot = (if timeslot < 1 then 1 else timeslot);
                            w9 = snd (nrf eng (Nrf_gzll_set_timeslot_period timeslot) w8)
                        in (GZ_OK, w9\<lparr>gz_state := (gz_state w9)\<lparr>initialized := True\<rparr>\<rparr>))"

subsection \<open>\<^verbatim>\<open>gz_set_mode\<close>\<close>

text \<open>
  \<^verbatim>\<open>while (nrf_gzll_is_enabled()) { }\<close> has no bound: \<open>None\<close> is the loop that
  never ends.
\<close>

partial_function (option) wait_disabled :: "'e nrf_engine \<Rightarrow> 'e world \<Rightarrow> 'e world option" where
  "wait_disabled eng w =
     (let rw = nrf eng Nrf_gzll_is_enabled w
      in if ret_bool (fst rw) then wait_disabled eng (snd rw) else Some (snd rw))"

definition gz_set_mode :: "'e nrf_engine \<Rightarrow> gz_mode_t \<Rightarrow> 'e world \<Rightarrow> (gz_error_t \<times> 'e world) option" where
  "gz_set_mode eng md w =
     (if \<not> initialized (gz_state w) then Some (GZ_ERR_NOT_INITIALIZED, w)
      else
        case wait_disabled eng (snd (nrf eng Nrf_gzll_disable w)) of
          None \<Rightarrow> None
        | Some w1 \<Rightarrow>
            let nrf_mode = (if md = GZ_MODE_DEVICE then Some NRF_GZLL_MODE_DEVICE
                            else if md = GZ_MODE_HOST then Some NRF_GZLL_MODE_HOST
                            else None)
            in case nrf_mode of
                 None \<Rightarrow> Some (GZ_ERR_INVALID_CONFIG, w1)
               | Some m \<Rightarrow>
                   let (r2, w2) = nrf eng (Nrf_gzll_init m) w1
                   in if \<not> ret_bool r2 then Some (GZ_ERR_HARDWARE, w2)
                      else
                        let (r3, w3) = nrf eng Nrf_gzll_enable w2
                        in if \<not> ret_bool r3 then Some (GZ_ERR_HARDWARE, w3)
                           else Some (GZ_OK, w3\<lparr>gz_state := (gz_state w3)\<lparr>mode := md\<rparr>\<rparr>))"

subsection \<open>\<^verbatim>\<open>gz_send\<close>\<close>

text \<open>
  The wait loop: \<^verbatim>\<open>while (timeout-- > 0)\<close> over a \<^verbatim>\<open>uint32_t\<close>. The interrupt may
  run before each of the two reads of a \<^verbatim>\<open>volatile\<close> flag.
\<close>

function gz_send_wait :: "'e nrf_engine \<Rightarrow> u32 \<Rightarrow> 'e world \<Rightarrow> gz_error_t \<times> 'e world" where
  "gz_send_wait eng timeout w =
     (if timeout > 0 then
        let timeout' = timeout - 1;
            w1 = interrupts eng w
        in if tx_success (gz_state w1) then (GZ_OK, w1)
           else
             let w2 = interrupts eng w1
             in if tx_failed (gz_state w2) then (GZ_ERR_SEND_FAILED, w2)
                else gz_send_wait eng timeout' w2
      else (GZ_ERR_SEND_FAILED, w))"
  by pat_completeness auto
termination
  by (relation "measure (\<lambda>(eng, timeout, w). unat timeout)") (auto simp: measure_unat)

declare gz_send_wait.simps [simp del]

definition gz_send :: "'e nrf_engine \<Rightarrow> u8 list option \<Rightarrow> u8 \<Rightarrow> 'e world \<Rightarrow> gz_error_t \<times> 'e world" where
  "gz_send eng data len w =
     (if \<not> initialized (gz_state w) then (GZ_ERR_NOT_INITIALIZED, w)
      else case data of
        None \<Rightarrow> (GZ_ERR_INVALID_CONFIG, w)
      | Some bytes \<Rightarrow>
          if len = 0 \<or> len > MAX_PAYLOAD_LENGTH then (GZ_ERR_FRAME_TOO_LARGE, w)
          else if mode (gz_state w) \<noteq> GZ_MODE_DEVICE then (GZ_ERR_INVALID_CONFIG, w)
          else
            let w0 = w\<lparr>gz_state := (gz_state w)\<lparr>tx_success := False, tx_failed := False\<rparr>\<rparr>;
                (r, w1) = nrf eng (Nrf_gzll_add_packet_to_tx_fifo 0 bytes (ucast len)) w0
            in if \<not> ret_bool r then (GZ_ERR_BUSY, w1)
               else gz_send_wait eng 100000 w1)"

subsection \<open>\<^verbatim>\<open>gz_recv\<close>\<close>

text \<open>
  The copy loop \<^verbatim>\<open>for (uint8_t i = 0; i < gz_state.rx_length; i++)\<close>. A write past
  the end of the caller's buffer, undefined in C, leaves the list as it is.
\<close>

function copy_out :: "u8 \<Rightarrow> u8 \<Rightarrow> u8 list \<Rightarrow> u8 list \<Rightarrow> u8 list" where
  "copy_out i n src out_buf =
     (if i < n then copy_out (i + 1) n src (out_buf[unat i := src ! unat i]) else out_buf)"
  by pat_completeness auto
termination
proof (relation "measure (\<lambda>(i, n, src, out_buf). unat n - unat i)")
  show "wf (measure (\<lambda>(i :: u8, n :: u8, src :: u8 list, out_buf :: u8 list). unat n - unat i))"
    by simp
next
  fix i n :: u8 and src out_buf :: "u8 list"
  assume "i < n"
  then have lt: "unat i < unat n"
    by (simp add: word_less_nat_alt)
  moreover have "unat n < 2 ^ LENGTH(8)"
    by (rule unsigned_less)
  moreover have "unat (1 :: u8) = 1"
    by simp
  ultimately have "unat i + unat (1 :: u8) < 2 ^ LENGTH(8)"
    by linarith
  then have "unat (i + 1) = unat i + unat (1 :: u8)"
    by (simp only: unat_add_lem)
  with lt show "((i + 1, n, src, out_buf[unat i := src ! unat i]), (i, n, src, out_buf))
      \<in> measure (\<lambda>(i, n, src, out_buf). unat n - unat i)"
    by simp
qed

declare copy_out.simps [simp del]

text \<open>
  The two output pointers are \<open>None\<close> when null; the result carries what they point to on
  return.
\<close>

definition gz_recv ::
  "u8 list option \<Rightarrow> u8 option \<Rightarrow> u8 \<Rightarrow> 'e world \<Rightarrow> gz_error_t \<times> u8 list option \<times> u8 option \<times> 'e world" where
  "gz_recv out_buf out_len max_len w =
     (if \<not> initialized (gz_state w) then (GZ_ERR_NOT_INITIALIZED, out_buf, out_len, w)
      else case (out_buf, out_len) of
        (Some buf, Some l) \<Rightarrow>
          if mode (gz_state w) \<noteq> GZ_MODE_HOST then (GZ_ERR_INVALID_CONFIG, out_buf, out_len, w)
          else if \<not> rx_ready (gz_state w) then (GZ_OK, out_buf, Some 0, w)
          else if rx_length (gz_state w) > max_len then (GZ_ERR_FRAME_TOO_LARGE, out_buf, out_len, w)
          else
            (GZ_OK,
             Some (copy_out 0 (rx_length (gz_state w)) (rx_buffer (gz_state w)) buf),
             Some (rx_length (gz_state w)),
             w\<lparr>gz_state := (gz_state w)\<lparr>rx_ready := False\<rparr>\<rparr>)
      | _ \<Rightarrow> (GZ_ERR_INVALID_CONFIG, out_buf, out_len, w))"

subsection \<open>\<^verbatim>\<open>gz_is_ready\<close>, \<^verbatim>\<open>gz_flush\<close>, \<^verbatim>\<open>gz_deinit\<close>\<close>

definition gz_is_ready :: "'e nrf_engine \<Rightarrow> 'e world \<Rightarrow> bool \<times> 'e world" where
  "gz_is_ready eng w =
     (if \<not> initialized (gz_state w) then (False, w)
      else
        let (r, w1) = nrf eng (Nrf_gzll_get_tx_fifo_packet_count 0) w
        in (ret_count r < NRF_GZLL_CONST_FIFO_LENGTH eng, w1))"

definition gz_flush :: "'e nrf_engine \<Rightarrow> 'e world \<Rightarrow> gz_error_t \<times> 'e world" where
  "gz_flush eng w =
     (if \<not> initialized (gz_state w) then (GZ_ERR_NOT_INITIALIZED, w)
      else
        let w1 = snd (nrf eng (Nrf_gzll_flush_tx_fifo 0) w);
            w2 = (if mode (gz_state w1) = GZ_MODE_HOST
                  then snd (nrf eng (Nrf_gzll_flush_rx_fifo 0) w1) else w1)
        in (GZ_OK, w2\<lparr>gz_state := (gz_state w2)\<lparr>rx_ready := False, tx_success := False,
                                                 tx_failed := False\<rparr>\<rparr>))"

definition gz_deinit :: "'e nrf_engine \<Rightarrow> 'e world \<Rightarrow> 'e world option" where
  "gz_deinit eng w =
     (if initialized (gz_state w) then
        case wait_disabled eng (snd (nrf eng Nrf_gzll_disable w)) of
          None \<Rightarrow> None
        | Some w1 \<Rightarrow>
            Some (w1\<lparr>gz_state := (gz_state w1)\<lparr>initialized := False, rx_ready := False,
                                                tx_success := False, tx_failed := False\<rparr>\<rparr>)
      else Some w)"

subsection \<open>The operation surface\<close>

text \<open>
  The seven functions of \<^verbatim>\<open>gazell_shim.h\<close> as one call type, and what a call
  returns to its caller: an error code, the \<^verbatim>\<open>bool\<close> of \<^verbatim>\<open>gz_is_ready\<close>, or
  nothing for the \<^verbatim>\<open>void\<close> \<^verbatim>\<open>gz_deinit\<close>. \<open>None\<close> is a call that never returns.
\<close>

datatype gz_call =
    Gz_init "gz_config_t option"
  | Gz_set_mode gz_mode_t
  | Gz_send "u8 list option" u8
  | Gz_recv "u8 list option" "u8 option" u8
  | Gz_is_ready
  | Gz_flush
  | Gz_deinit

datatype gz_ret = Ret_error gz_error_t | Ret_bool bool | Ret_void

fun gz_returns :: "'e nrf_engine \<Rightarrow> gz_call \<Rightarrow> 'e world \<Rightarrow> gz_ret option" where
  "gz_returns eng (Gz_init config) w = Some (Ret_error (fst (gz_init eng config w)))"
| "gz_returns eng (Gz_set_mode md) w = map_option (\<lambda>r. Ret_error (fst r)) (gz_set_mode eng md w)"
| "gz_returns eng (Gz_send data len) w = Some (Ret_error (fst (gz_send eng data len w)))"
| "gz_returns eng (Gz_recv out_buf out_len max_len) w =
     Some (Ret_error (fst (gz_recv out_buf out_len max_len w)))"
| "gz_returns eng Gz_is_ready w = Some (Ret_bool (fst (gz_is_ready eng w)))"
| "gz_returns eng Gz_flush w = Some (Ret_error (fst (gz_flush eng w)))"
| "gz_returns eng Gz_deinit w = map_option (\<lambda>r. Ret_void) (gz_deinit eng w)"

section \<open>Observing a run\<close>

text \<open>The state after \<open>n\<close> more points where the interrupt may run.\<close>

fun polled :: "'e nrf_engine \<Rightarrow> nat \<Rightarrow> 'e world \<Rightarrow> 'e world" where
  "polled eng 0 w = w"
| "polled eng (Suc n) w = polled eng n (interrupts eng w)"

text \<open>
  Round \<open>j\<close> of the wait loop of \<^verbatim>\<open>gz_send\<close>, counted from 0, reads \<^verbatim>\<open>tx_success\<close>
  at point \<open>2 * j + 1\<close> and \<^verbatim>\<open>tx_failed\<close> at point \<open>2 * j + 2\<close>. The round is silent
  when it reads both flags false.
\<close>

definition silent :: "'e nrf_engine \<Rightarrow> 'e world \<Rightarrow> nat \<Rightarrow> bool" where
  "silent eng w j =
     (\<not> tx_success (gz_state (polled eng (2 * j + 1) w)) \<and>
      \<not> tx_failed (gz_state (polled eng (2 * j + 2) w)))"

text \<open>The timing periods programmed by the calls of a trace, oldest first.\<close>

fun timeslot_periods :: "nrf_call list \<Rightarrow> u32 list" where
  "timeslot_periods [] = []"
| "timeslot_periods (Nrf_gzll_set_timeslot_period v # cs) = v # timeslot_periods cs"
| "timeslot_periods (c # cs) = timeslot_periods cs"

section \<open>A scripted engine\<close>

text \<open>
  A small engine to run the operations on concrete inputs: a radio that is enabled or
  not, a bring-up that works or not, an outbound queue of \<open>sim_tx_count\<close> packets with
  room for three, an inbound queue, and the callbacks its interrupt will raise, one list
  for each point where it may run.
\<close>

record sim =
  sim_enabled :: bool
  sim_init_ok :: bool
  sim_tx_count :: int
  sim_rx_fifo :: "u8 list list"
  sim_irqs :: "nrf_event list list"

fun sim_exec :: "nrf_call \<Rightarrow> sim \<Rightarrow> nrf_ret \<times> sim" where
  "sim_exec (Nrf_gzll_init m) s = (Nrf_bool (sim_init_ok s), s)"
| "sim_exec Nrf_gzll_disable s = (Nrf_void, s\<lparr>sim_enabled := False\<rparr>)"
| "sim_exec Nrf_gzll_is_enabled s = (Nrf_bool (sim_enabled s), s)"
| "sim_exec Nrf_gzll_enable s = (Nrf_bool True, s\<lparr>sim_enabled := True\<rparr>)"
| "sim_exec (Nrf_gzll_add_packet_to_tx_fifo pipe bytes len) s =
     (if sim_tx_count s < 3 then (Nrf_bool True, s\<lparr>sim_tx_count := sim_tx_count s + 1\<rparr>)
      else (Nrf_bool False, s))"
| "sim_exec (Nrf_gzll_fetch_packet_from_rx_fifo pipe buf len) s =
     (case sim_rx_fifo s of
        [] \<Rightarrow> (Nrf_packet False buf len, s)
      | p # ps \<Rightarrow> (Nrf_packet True (p @ drop (length p) buf) (of_nat (length p)),
                   s\<lparr>sim_rx_fifo := ps\<rparr>))"
| "sim_exec (Nrf_gzll_get_tx_fifo_packet_count pipe) s = (Nrf_count (sim_tx_count s), s)"
| "sim_exec (Nrf_gzll_flush_tx_fifo pipe) s = (Nrf_bool True, s\<lparr>sim_tx_count := 0\<rparr>)"
| "sim_exec (Nrf_gzll_flush_rx_fifo pipe) s = (Nrf_bool True, s\<lparr>sim_rx_fifo := []\<rparr>)"
| "sim_exec (Nrf_gzll_set_max_tx_attempts n) s = (Nrf_void, s)"
| "sim_exec c s = (Nrf_bool True, s)"

fun sim_irq :: "sim \<Rightarrow> nrf_event list \<times> sim" where
  "sim_irq s =
     (case sim_irqs s of
        [] \<Rightarrow> ([], s)
      | evs # rest \<Rightarrow> (evs, s\<lparr>sim_irqs := rest\<rparr>))"

definition sim_engine :: "sim nrf_engine" where
  "sim_engine = \<lparr>nrf_exec = sim_exec, nrf_irq = sim_irq, NRF_GZLL_CONST_FIFO_LENGTH = 3\<rparr>"

text \<open>
  The engine at rest, and four states of the whole: before \<^verbatim>\<open>gz_init\<close>, and
  initialized in device role, in host role with nothing buffered, and in host role with
  the three bytes 7, 8, 9 buffered. In the last three the radio is enabled.
\<close>

definition sim_idle :: sim where
  "sim_idle = \<lparr>sim_enabled = False, sim_init_ok = True, sim_tx_count = 0,
               sim_rx_fifo = [], sim_irqs = []\<rparr>"

definition world_zero :: "sim world" where
  "world_zero = \<lparr>gz_state = gz_state_zero, nrf_state = sim_idle, nrf_trace = []\<rparr>"

definition world_device :: "sim world" where
  "world_device =
     \<lparr>gz_state = gz_state_zero\<lparr>initialized := True, mode := GZ_MODE_DEVICE\<rparr>,
      nrf_state = sim_idle\<lparr>sim_enabled := True\<rparr>, nrf_trace = []\<rparr>"

definition world_host :: "sim world" where
  "world_host =
     \<lparr>gz_state = gz_state_zero\<lparr>initialized := True, mode := GZ_MODE_HOST\<rparr>,
      nrf_state = sim_idle\<lparr>sim_enabled := True\<rparr>, nrf_trace = []\<rparr>"

definition world_host_rx :: "sim world" where
  "world_host_rx =
     \<lparr>gz_state = gz_state_zero\<lparr>initialized := True, mode := GZ_MODE_HOST,
                               rx_buffer := [7, 8, 9] @ replicate 29 0,
                               rx_length := 3, rx_ready := True\<rparr>,
      nrf_state = sim_idle\<lparr>sim_enabled := True\<rparr>, nrf_trace = []\<rparr>"

text \<open>A configuration that passes every check of \<^verbatim>\<open>gz_init\<close>.\<close>

definition config_ok :: gz_config_t where
  "config_ok = \<lparr>channel = 4, data_rate = 2, tx_power = 0, max_retries = 3,
                ack_timeout_us = 600, base_address = [1, 2, 3, 4], address_prefix = 5\<rparr>"

text \<open>
  What \<^verbatim>\<open>gz_deinit\<close> makes of the host with a packet buffered: the radio disabled
  after one query.
\<close>

definition world_after_deinit :: "sim world" where
  "world_after_deinit =
     \<lparr>gz_state = (gz_state world_host_rx)\<lparr>initialized := False, rx_ready := False\<rparr>,
      nrf_state = sim_idle, nrf_trace = [Nrf_gzll_disable, Nrf_gzll_is_enabled]\<rparr>"

text \<open>
  Three more states in device role: the outbound queue full; \<^verbatim>\<open>tx_failed\<close> left set
  and an ACK to come at the third point where the interrupt may run; a failure to come
  at the second.
\<close>

definition world_device_full :: "sim world" where
  "world_device_full = world_device\<lparr>nrf_state := (nrf_state world_device)\<lparr>sim_tx_count := 3\<rparr>\<rparr>"

definition world_device_ack :: "sim world" where
  "world_device_ack =
     world_device\<lparr>gz_state := (gz_state world_device)\<lparr>tx_failed := True\<rparr>,
                   nrf_state := (nrf_state world_device)
                     \<lparr>sim_irqs := [[], [], [Device_tx_success 0]]\<rparr>\<rparr>"

definition world_device_nack :: "sim world" where
  "world_device_nack =
     world_device\<lparr>nrf_state := (nrf_state world_device)\<lparr>sim_irqs := [[], [Device_tx_failed 0]]\<rparr>\<rparr>"

section \<open>Engine calls\<close>

text \<open>A call leaves the shim's struct alone, is added to the trace, and moves the engine.\<close>

lemma nrf_gz_state [simp]: "gz_state (snd (nrf eng c w)) = gz_state w"
  by (simp add: nrf_def split: prod.splits)

lemma nrf_trace_nrf [simp]: "nrf_trace (snd (nrf eng c w)) = nrf_trace w @ [c]"
  by (simp add: nrf_def split: prod.splits)

lemma nrf_state_nrf [simp]: "nrf_state (snd (nrf eng c w)) = snd (nrf_exec eng c (nrf_state w))"
  by (simp add: nrf_def split: prod.splits)

lemma fst_nrf [simp]: "fst (nrf eng c w) = fst (nrf_exec eng c (nrf_state w))"
  by (simp add: nrf_def split: prod.splits)

section \<open>\<^verbatim>\<open>gz_init\<close>: rejected configurations\<close>

text \<open>
  C4. A null configuration, or one that breaks a bound (channel above 100, data rate not
  0, 1 or 2, more than 15 retries, an ACK timeout below 250 or above 4000 microseconds),
  makes \<^verbatim>\<open>gz_init\<close> return \<^verbatim>\<open>GZ_ERR_INVALID_CONFIG\<close> and leave everything as it
  was: the struct with its \<^verbatim>\<open>initialized\<close> field and its flags, and the engine, which
  gets no call.
\<close>

theorem gz_init_invalid_config:
  assumes "config = None \<or>
           (\<exists>c. config = Some c \<and>
             (100 < unat (channel c) \<or> unat (data_rate c) \<notin> {0, 1, 2} \<or>
              15 < unat (max_retries c) \<or>
              unat (ack_timeout_us c) < 250 \<or> 4000 < unat (ack_timeout_us c)))"
  shows "gz_init eng config w = (GZ_ERR_INVALID_CONFIG, w)"
proof (cases config)
  case None
  then show ?thesis by (simp add: gz_init_def)
next
  case (Some c)
  with assms have bad:
    "100 < unat (channel c) \<or> unat (data_rate c) \<notin> {0, 1, 2} \<or> 15 < unat (max_retries c) \<or>
     unat (ack_timeout_us c) < 250 \<or> 4000 < unat (ack_timeout_us c)"
    by simp
  have "channel c > 100 \<or> data_rate c > 2 \<or> max_retries c > 15 \<or>
        ack_timeout_us c < 250 \<or> ack_timeout_us c > 4000"
    using bad by (auto simp: word_less_nat_alt)
  then show ?thesis
    using Some by (auto simp: gz_init_def)
qed

text \<open>
  Each violation on its own, on a link that is initialized with a packet buffered: the
  state comes back as it was.
\<close>

theorem gz_init_invalid_config_witness:
  "gz_init sim_engine None world_host_rx = (GZ_ERR_INVALID_CONFIG, world_host_rx) \<and>
   gz_init sim_engine (Some (config_ok\<lparr>channel := 101\<rparr>)) world_host_rx
     = (GZ_ERR_INVALID_CONFIG, world_host_rx) \<and>
   gz_init sim_engine (Some (config_ok\<lparr>data_rate := 3\<rparr>)) world_host_rx
     = (GZ_ERR_INVALID_CONFIG, world_host_rx) \<and>
   gz_init sim_engine (Some (config_ok\<lparr>max_retries := 16\<rparr>)) world_host_rx
     = (GZ_ERR_INVALID_CONFIG, world_host_rx) \<and>
   gz_init sim_engine (Some (config_ok\<lparr>ack_timeout_us := 249\<rparr>)) world_host_rx
     = (GZ_ERR_INVALID_CONFIG, world_host_rx) \<and>
   gz_init sim_engine (Some (config_ok\<lparr>ack_timeout_us := 4001\<rparr>)) world_host_rx
     = (GZ_ERR_INVALID_CONFIG, world_host_rx) \<and>
   initialized (gz_state world_host_rx) \<and> rx_ready (gz_state world_host_rx)"
  using gz_init_invalid_config [of None sim_engine world_host_rx]
    gz_init_invalid_config [of "Some (config_ok\<lparr>channel := 101\<rparr>)" sim_engine world_host_rx]
    gz_init_invalid_config [of "Some (config_ok\<lparr>data_rate := 3\<rparr>)" sim_engine world_host_rx]
    gz_init_invalid_config [of "Some (config_ok\<lparr>max_retries := 16\<rparr>)" sim_engine world_host_rx]
    gz_init_invalid_config [of "Some (config_ok\<lparr>ack_timeout_us := 249\<rparr>)" sim_engine world_host_rx]
    gz_init_invalid_config [of "Some (config_ok\<lparr>ack_timeout_us := 4001\<rparr>)" sim_engine world_host_rx]
  by (simp add: config_ok_def world_host_rx_def gz_state_zero_def)

section \<open>\<^verbatim>\<open>gz_init\<close>: accepted configurations\<close>

text \<open>The checks of \<^verbatim>\<open>gz_init\<close> in numbers, and the value of its \<^verbatim>\<open>timeslot\<close>.\<close>

lemma data_rate_cases:
  fixes d :: u8
  assumes "unat d \<le> 2"
  shows "d = 0 \<or> d = 1 \<or> d = 2"
proof -
  have "unat d = 0 \<or> unat d = 1 \<or> unat d = 2"
    using assms by arith
  then show ?thesis
    by (simp add: word_unat_eq_iff)
qed

lemma unat_ucast_16_32:
  fixes t :: u16
  shows "unat (ucast t :: u32) = unat t"
proof -
  have "unat t < 2 ^ 16" using unsigned_less [of t] by simp
  then have "unat t < 2 ^ 32" by simp
  then show ?thesis
    by (simp add: unsigned_ucast_eq take_bit_nat_eq_self)
qed

lemma timeslot_value:
  fixes t :: u16
  shows "(if (ucast t :: u32) div 500 < 1 then 1 else (ucast t :: u32) div 500)
         = of_nat (max 1 (unat t div 500))"
proof -
  define v :: u32 where "v = (if (ucast t :: u32) div 500 < 1 then 1 else ucast t div 500)"
  have d: "unat ((ucast t :: u32) div 500) = unat t div 500"
    by (simp add: unat_div unat_ucast_16_32)
  have "unat v = max 1 (unat t div 500)"
  proof (cases "(ucast t :: u32) div 500 < 1")
    case True
    then have "unat t div 500 = 0"
      using d by (simp add: word_less_nat_alt)
    with True show ?thesis
      by (simp add: v_def)
  next
    case False
    then have "1 \<le> unat t div 500"
      using d by (simp add: word_less_nat_alt)
    with False show ?thesis
      by (simp add: v_def d max_def)
  qed
  moreover have "v = of_nat (unat v)"
    by simp
  ultimately have "v = of_nat (max 1 (unat t div 500))"
    by (simp only:)
  then show ?thesis
    by (simp only: v_def)
qed

lemma config_checks_pass:
  assumes "unat (channel c) \<le> 100" and "unat (data_rate c) \<le> 2"
    and "unat (max_retries c) \<le> 15"
    and "250 \<le> unat (ack_timeout_us c)" and "unat (ack_timeout_us c) \<le> 4000"
  shows "\<not> channel c > 100" and "\<not> data_rate c > 2" and "\<not> max_retries c > 15"
    and "\<not> (ack_timeout_us c < 250 \<or> ack_timeout_us c > 4000)"
  using assms by (simp_all add: word_less_nat_alt)

lemma timeslot_periods_append:
  "timeslot_periods (xs @ ys) = timeslot_periods xs @ timeslot_periods ys"
  by (induction xs rule: timeslot_periods.induct) simp_all

text \<open>
  C7. When the configuration passes every check and the engine's bring-up call
  \<^verbatim>\<open>nrf_gzll_init\<close> fails, \<^verbatim>\<open>gz_init\<close> returns \<^verbatim>\<open>GZ_ERR_HARDWARE\<close> with the
  struct already reset: \<^verbatim>\<open>initialized\<close>, \<^verbatim>\<open>rx_ready\<close>, \<^verbatim>\<open>tx_success\<close> and
  \<^verbatim>\<open>tx_failed\<close> are false, whatever they were, and the other fields are as before. The
  bring-up call is the only call the engine got.
\<close>

theorem gz_init_hardware_failure:
  assumes "unat (channel c) \<le> 100" and "unat (data_rate c) \<le> 2"
    and "unat (max_retries c) \<le> 15"
    and "250 \<le> unat (ack_timeout_us c)" and "unat (ack_timeout_us c) \<le> 4000"
    and "\<not> ret_bool (fst (nrf_exec eng (Nrf_gzll_init NRF_GZLL_MODE_DEVICE) (nrf_state w)))"
  shows "fst (gz_init eng (Some c) w) = GZ_ERR_HARDWARE \<and>
         gz_state (snd (gz_init eng (Some c) w))
           = (gz_state w)\<lparr>initialized := False, rx_ready := False,
                            tx_success := False, tx_failed := False\<rparr> \<and>
         nrf_trace (snd (gz_init eng (Some c) w))
           = nrf_trace w @ [Nrf_gzll_init NRF_GZLL_MODE_DEVICE]"
  using assms(6) config_checks_pass [OF assms(1-5)]
  by (simp add: gz_init_def Let_def case_prod_beta)

text \<open>
  C10. For a configuration that passes every check, \<^verbatim>\<open>gz_init\<close> programs one timing
  period when the bring-up succeeds, and none when it fails; the value is
  \<^verbatim>\<open>ack_timeout_us / 500\<close>, truncated, and at least 1.
\<close>

theorem gz_init_timeslot_period:
  assumes "unat (channel c) \<le> 100" and "unat (data_rate c) \<le> 2"
    and "unat (max_retries c) \<le> 15"
    and "250 \<le> unat (ack_timeout_us c)" and "unat (ack_timeout_us c) \<le> 4000"
  shows "timeslot_periods (nrf_trace (snd (gz_init eng (Some c) w)))
           = timeslot_periods (nrf_trace w) @
             (if ret_bool (fst (nrf_exec eng (Nrf_gzll_init NRF_GZLL_MODE_DEVICE) (nrf_state w)))
              then [of_nat (max 1 (unat (ack_timeout_us c) div 500))] else [])"
proof -
  note ok = config_checks_pass [OF assms]
  from data_rate_cases [OF assms(2)] show ?thesis
    using ok
    by (auto simp add: gz_init_def Let_def case_prod_beta timeslot_periods_append timeslot_value
             simp del: word_less_1)
qed

text \<open>
  On a link that was initialized, in host role with a packet buffered, and an engine
  whose bring-up fails.
\<close>

theorem gz_init_hardware_failure_witness:
  "initialized (gz_state world_host_rx) \<and> rx_ready (gz_state world_host_rx) \<and>
   fst (gz_init sim_engine (Some config_ok)
          (world_host_rx\<lparr>nrf_state := sim_idle\<lparr>sim_init_ok := False\<rparr>\<rparr>)) = GZ_ERR_HARDWARE \<and>
   gz_state (snd (gz_init sim_engine (Some config_ok)
          (world_host_rx\<lparr>nrf_state := sim_idle\<lparr>sim_init_ok := False\<rparr>\<rparr>)))
     = \<lparr>initialized = False, mode = GZ_MODE_HOST, rx_buffer = [7, 8, 9] @ replicate 29 0,
        rx_length = 3, rx_ready = False, tx_success = False, tx_failed = False\<rparr>"
  using gz_init_hardware_failure [of config_ok sim_engine
          "world_host_rx\<lparr>nrf_state := sim_idle\<lparr>sim_init_ok := False\<rparr>\<rparr>"]
  by (simp add: config_ok_def world_host_rx_def sim_engine_def sim_idle_def gz_state_zero_def)

text \<open>Timeouts 250, 499, 500 and 999 give 1; 1000 and 1499 give 2; 4000 gives 8.\<close>

theorem gz_init_timeslot_period_witness:
  "timeslot_periods (nrf_trace (snd (gz_init sim_engine
      (Some (config_ok\<lparr>ack_timeout_us := 250\<rparr>)) world_zero))) = [1] \<and>
   timeslot_periods (nrf_trace (snd (gz_init sim_engine
      (Some (config_ok\<lparr>ack_timeout_us := 499\<rparr>)) world_zero))) = [1] \<and>
   timeslot_periods (nrf_trace (snd (gz_init sim_engine
      (Some (config_ok\<lparr>ack_timeout_us := 500\<rparr>)) world_zero))) = [1] \<and>
   timeslot_periods (nrf_trace (snd (gz_init sim_engine
      (Some (config_ok\<lparr>ack_timeout_us := 999\<rparr>)) world_zero))) = [1] \<and>
   timeslot_periods (nrf_trace (snd (gz_init sim_engine
      (Some (config_ok\<lparr>ack_timeout_us := 1000\<rparr>)) world_zero))) = [2] \<and>
   timeslot_periods (nrf_trace (snd (gz_init sim_engine
      (Some (config_ok\<lparr>ack_timeout_us := 1499\<rparr>)) world_zero))) = [2] \<and>
   timeslot_periods (nrf_trace (snd (gz_init sim_engine
      (Some (config_ok\<lparr>ack_timeout_us := 4000\<rparr>)) world_zero))) = [8]"
  using gz_init_timeslot_period [of "config_ok\<lparr>ack_timeout_us := 250\<rparr>" sim_engine world_zero]
    gz_init_timeslot_period [of "config_ok\<lparr>ack_timeout_us := 499\<rparr>" sim_engine world_zero]
    gz_init_timeslot_period [of "config_ok\<lparr>ack_timeout_us := 500\<rparr>" sim_engine world_zero]
    gz_init_timeslot_period [of "config_ok\<lparr>ack_timeout_us := 999\<rparr>" sim_engine world_zero]
    gz_init_timeslot_period [of "config_ok\<lparr>ack_timeout_us := 1000\<rparr>" sim_engine world_zero]
    gz_init_timeslot_period [of "config_ok\<lparr>ack_timeout_us := 1499\<rparr>" sim_engine world_zero]
    gz_init_timeslot_period [of "config_ok\<lparr>ack_timeout_us := 4000\<rparr>" sim_engine world_zero]
  by (simp add: config_ok_def world_zero_def sim_engine_def sim_idle_def)

section \<open>\<^verbatim>\<open>gz_flush\<close>\<close>

text \<open>
  C9. On an initialized link \<^verbatim>\<open>gz_flush\<close> returns \<^verbatim>\<open>GZ_OK\<close>; it calls
  \<^verbatim>\<open>nrf_gzll_flush_tx_fifo\<close> on pipe 0, then \<^verbatim>\<open>nrf_gzll_flush_rx_fifo\<close> on pipe 0 if
  and only if the mode is \<^verbatim>\<open>GZ_MODE_HOST\<close>, and makes no other call; it sets
  \<^verbatim>\<open>rx_ready\<close>, \<^verbatim>\<open>tx_success\<close> and \<^verbatim>\<open>tx_failed\<close> to false and changes no other
  field: \<^verbatim>\<open>initialized\<close> and \<^verbatim>\<open>mode\<close> are as before.
\<close>

theorem gz_flush_effect:
  assumes "initialized (gz_state w)"
  shows "fst (gz_flush eng w) = GZ_OK \<and>
         nrf_trace (snd (gz_flush eng w))
           = nrf_trace w @
             (if mode (gz_state w) = GZ_MODE_HOST
              then [Nrf_gzll_flush_tx_fifo 0, Nrf_gzll_flush_rx_fifo 0]
              else [Nrf_gzll_flush_tx_fifo 0]) \<and>
         nrf_state (snd (gz_flush eng w))
           = (if mode (gz_state w) = GZ_MODE_HOST
              then snd (nrf_exec eng (Nrf_gzll_flush_rx_fifo 0)
                     (snd (nrf_exec eng (Nrf_gzll_flush_tx_fifo 0) (nrf_state w))))
              else snd (nrf_exec eng (Nrf_gzll_flush_tx_fifo 0) (nrf_state w))) \<and>
         gz_state (snd (gz_flush eng w))
           = (gz_state w)\<lparr>rx_ready := False, tx_success := False, tx_failed := False\<rparr> \<and>
         initialized (gz_state (snd (gz_flush eng w))) = initialized (gz_state w) \<and>
         mode (gz_state (snd (gz_flush eng w))) = mode (gz_state w)"
  using assms by (simp add: gz_flush_def Let_def)

text \<open>
  In host role both queues of the scripted engine end up empty; in device role the
  inbound queue keeps its two packets.
\<close>

theorem gz_flush_effect_witness:
  "gz_flush sim_engine
     (world_host_rx\<lparr>nrf_state := sim_idle\<lparr>sim_tx_count := 2, sim_rx_fifo := [[1], [2]]\<rparr>\<rparr>)
     = (GZ_OK,
        \<lparr>gz_state = \<lparr>initialized = True, mode = GZ_MODE_HOST,
                      rx_buffer = [7, 8, 9] @ replicate 29 0, rx_length = 3,
                      rx_ready = False, tx_success = False, tx_failed = False\<rparr>,
         nrf_state = sim_idle,
         nrf_trace = [Nrf_gzll_flush_tx_fifo 0, Nrf_gzll_flush_rx_fifo 0]\<rparr>) \<and>
   gz_flush sim_engine
     (world_device\<lparr>gz_state := (gz_state world_device)\<lparr>tx_failed := True\<rparr>,
                    nrf_state := sim_idle\<lparr>sim_tx_count := 2, sim_rx_fifo := [[1], [2]]\<rparr>\<rparr>)
     = (GZ_OK,
        \<lparr>gz_state = gz_state world_device,
         nrf_state = sim_idle\<lparr>sim_rx_fifo := [[1], [2]]\<rparr>,
         nrf_trace = [Nrf_gzll_flush_tx_fifo 0]\<rparr>)"
  using gz_flush_effect [of
      "world_host_rx\<lparr>nrf_state := sim_idle\<lparr>sim_tx_count := 2, sim_rx_fifo := [[1], [2]]\<rparr>\<rparr>"
      sim_engine]
    gz_flush_effect [of
      "world_device\<lparr>gz_state := (gz_state world_device)\<lparr>tx_failed := True\<rparr>,
                     nrf_state := sim_idle\<lparr>sim_tx_count := 2, sim_rx_fifo := [[1], [2]]\<rparr>\<rparr>"
      sim_engine]
  by (simp add: world_host_rx_def world_device_def sim_engine_def sim_idle_def gz_state_zero_def
        prod_eq_iff world.equality gz_state_t.equality)

section \<open>\<^verbatim>\<open>gz_send\<close>\<close>

text \<open>
  C6. \<^verbatim>\<open>gz_send\<close> checks in this order, and the first check that fails decides: not
  initialized gives \<^verbatim>\<open>GZ_ERR_NOT_INITIALIZED\<close>; else a null data pointer gives
  \<^verbatim>\<open>GZ_ERR_INVALID_CONFIG\<close>; else a length of 0 or above 32 gives
  \<^verbatim>\<open>GZ_ERR_FRAME_TOO_LARGE\<close>; else a mode other than \<^verbatim>\<open>GZ_MODE_DEVICE\<close> gives
  \<^verbatim>\<open>GZ_ERR_INVALID_CONFIG\<close>. In each case nothing changes.
\<close>

theorem gz_send_preconditions:
  "(\<not> initialized (gz_state w) \<longrightarrow>
      gz_send eng data len w = (GZ_ERR_NOT_INITIALIZED, w)) \<and>
   (initialized (gz_state w) \<and> data = None \<longrightarrow>
      gz_send eng data len w = (GZ_ERR_INVALID_CONFIG, w)) \<and>
   (initialized (gz_state w) \<and> data \<noteq> None \<and> (unat len = 0 \<or> 32 < unat len) \<longrightarrow>
      gz_send eng data len w = (GZ_ERR_FRAME_TOO_LARGE, w)) \<and>
   (initialized (gz_state w) \<and> data \<noteq> None \<and> 1 \<le> unat len \<and> unat len \<le> 32 \<and>
    mode (gz_state w) \<noteq> GZ_MODE_DEVICE \<longrightarrow>
      gz_send eng data len w = (GZ_ERR_INVALID_CONFIG, w))"
proof -
  have len: "(len = 0 \<or> len > 32) = (unat len = 0 \<or> 32 < unat len)"
    by (simp add: word_less_nat_alt unat_eq_0)
  show ?thesis
    unfolding gz_send_def len by (auto split: option.splits)
qed

text \<open>
  A call that breaks every check at once reports the first one; mending the checks one
  by one walks through the four failures.
\<close>

theorem gz_send_preconditions_witness:
  "gz_send sim_engine None 0 world_zero = (GZ_ERR_NOT_INITIALIZED, world_zero) \<and>
   gz_send sim_engine None 0 world_host = (GZ_ERR_INVALID_CONFIG, world_host) \<and>
   gz_send sim_engine (Some []) 0 world_host = (GZ_ERR_FRAME_TOO_LARGE, world_host) \<and>
   gz_send sim_engine (Some (replicate 33 5)) 33 world_host = (GZ_ERR_FRAME_TOO_LARGE, world_host) \<and>
   gz_send sim_engine (Some [5]) 1 world_host = (GZ_ERR_INVALID_CONFIG, world_host)"
  using gz_send_preconditions [of world_zero sim_engine None 0]
    gz_send_preconditions [of world_host sim_engine None 0]
    gz_send_preconditions [of world_host sim_engine "Some []" 0]
    gz_send_preconditions [of world_host sim_engine "Some (replicate 33 5)" 33]
    gz_send_preconditions [of world_host sim_engine "Some [5]" 1]
  by (simp add: world_zero_def world_host_def gz_state_zero_def)

section \<open>\<^verbatim>\<open>gz_recv\<close>\<close>

text \<open>
  The copy loop writes the first \<open>n\<close> bytes of the source over the first \<open>n\<close> bytes of
  the caller's buffer and leaves the rest, when both hold \<open>n\<close> bytes.
\<close>

lemma copy_out_length [simp]: "length (copy_out i n src out_buf) = length out_buf"
proof (induction i n src out_buf rule: copy_out.induct)
  case (1 i n src out_buf)
  then show ?case
    by (subst copy_out.simps) simp
qed

lemma unat_inc_below:
  fixes i n :: u8
  assumes "i < n"
  shows "unat (i + 1) = Suc (unat i)"
proof -
  have "unat i < unat n"
    using assms by (simp add: word_less_nat_alt)
  moreover have "unat n < 2 ^ LENGTH(8)"
    by (rule unsigned_less)
  moreover have "unat (1 :: u8) = 1"
    by simp
  ultimately have "unat i + unat (1 :: u8) < 2 ^ LENGTH(8)"
    by linarith
  then have "unat (i + 1) = unat i + unat (1 :: u8)"
    by (simp only: unat_add_lem)
  then show ?thesis
    by simp
qed

lemma copy_out_nth:
  "k < length out_buf \<Longrightarrow>
   copy_out i n src out_buf ! k = (if unat i \<le> k \<and> k < unat n then src ! k else out_buf ! k)"
proof (induction i n src out_buf rule: copy_out.induct)
  case (1 i n src out_buf)
  show ?case
  proof (cases "i < n")
    case True
    have "copy_out i n src out_buf ! k = copy_out (i + 1) n src (out_buf[unat i := src ! unat i]) ! k"
      using True by (subst copy_out.simps) simp
    also have "\<dots> = (if unat (i + 1) \<le> k \<and> k < unat n then src ! k
                      else out_buf[unat i := src ! unat i] ! k)"
      using "1.IH" [OF True] "1.prems" by simp
    also have "\<dots> = (if unat i \<le> k \<and> k < unat n then src ! k else out_buf ! k)"
    proof (cases "k = unat i")
      case True
      with \<open>i < n\<close> "1.prems" show ?thesis
        by (simp add: unat_inc_below [OF \<open>i < n\<close>] word_less_nat_alt)
    next
      case False
      with \<open>i < n\<close> "1.prems" show ?thesis
        by (auto simp: unat_inc_below [OF \<open>i < n\<close>])
    qed
    finally show ?thesis .
  next
    case False
    then have "copy_out i n src out_buf = out_buf"
      by (subst copy_out.simps) simp
    moreover have "\<not> (unat i \<le> k \<and> k < unat n)"
      using False by (simp add: word_less_nat_alt)
    ultimately show ?thesis
      by auto
  qed
qed

lemma copy_out_take_drop:
  assumes "unat n \<le> length src" and "unat n \<le> length out_buf"
  shows "copy_out 0 n src out_buf = take (unat n) src @ drop (unat n) out_buf"
proof (rule nth_equalityI)
  show "length (copy_out 0 n src out_buf) = length (take (unat n) src @ drop (unat n) out_buf)"
    using assms by simp
next
  fix k
  assume "k < length (copy_out 0 n src out_buf)"
  then have k: "k < length out_buf"
    by simp
  show "copy_out 0 n src out_buf ! k = (take (unat n) src @ drop (unat n) out_buf) ! k"
    using assms k by (simp add: copy_out_nth nth_append)
qed

text \<open>
  The successful delivery. The two length hypotheses are those of the C memory model:
  \<^verbatim>\<open>rx_length\<close> is within \<^verbatim>\<open>rx_buffer\<close>, and the caller's buffer holds the bytes
  that are written to it.
\<close>

lemma gz_recv_copy:
  assumes "initialized (gz_state w)" and "mode (gz_state w) = GZ_MODE_HOST"
    and "rx_ready (gz_state w)"
    and "unat (rx_length (gz_state w)) \<le> unat max_len"
    and "unat (rx_length (gz_state w)) \<le> length (rx_buffer (gz_state w))"
    and "unat (rx_length (gz_state w)) \<le> length buf"
  shows "gz_recv (Some buf) (Some l) max_len w =
           (GZ_OK,
            Some (take (unat (rx_length (gz_state w))) (rx_buffer (gz_state w)) @
                  drop (unat (rx_length (gz_state w))) buf),
            Some (rx_length (gz_state w)),
            w\<lparr>gz_state := (gz_state w)\<lparr>rx_ready := False\<rparr>\<rparr>)"
  using assms by (simp add: gz_recv_def copy_out_take_drop word_less_nat_alt)

text \<open>
  C5. On an initialized link in host role, with both output pointers non-null: when
  \<^verbatim>\<open>rx_ready\<close> is false, \<^verbatim>\<open>gz_recv\<close> writes 0 to \<^verbatim>\<open>*out_len\<close>, returns
  \<^verbatim>\<open>GZ_OK\<close> and changes nothing else; when \<^verbatim>\<open>rx_ready\<close> is true and the buffered
  length \<open>N\<close> is at most \<^verbatim>\<open>max_len\<close>, it copies the \<open>N\<close> buffered bytes to the front
  of the output buffer, writes \<open>N\<close> to \<^verbatim>\<open>*out_len\<close>, clears \<^verbatim>\<open>rx_ready\<close> and returns
  \<^verbatim>\<open>GZ_OK\<close>, and a \<^verbatim>\<open>gz_recv\<close> that follows returns \<^verbatim>\<open>GZ_OK\<close> with length 0.
\<close>

theorem gz_recv_delivery:
  assumes "initialized (gz_state w)" and "mode (gz_state w) = GZ_MODE_HOST"
  shows "(\<not> rx_ready (gz_state w) \<longrightarrow>
            gz_recv (Some buf) (Some l) max_len w = (GZ_OK, Some buf, Some 0, w)) \<and>
         (rx_ready (gz_state w) \<and>
          unat (rx_length (gz_state w)) \<le> unat max_len \<and>
          unat (rx_length (gz_state w)) \<le> length (rx_buffer (gz_state w)) \<and>
          unat (rx_length (gz_state w)) \<le> length buf \<longrightarrow>
            gz_recv (Some buf) (Some l) max_len w =
              (GZ_OK,
               Some (take (unat (rx_length (gz_state w))) (rx_buffer (gz_state w)) @
                     drop (unat (rx_length (gz_state w))) buf),
               Some (rx_length (gz_state w)),
               w\<lparr>gz_state := (gz_state w)\<lparr>rx_ready := False\<rparr>\<rparr>) \<and>
            gz_recv (Some buf2) (Some l2) max_len2 (w\<lparr>gz_state := (gz_state w)\<lparr>rx_ready := False\<rparr>\<rparr>) =
              (GZ_OK, Some buf2, Some 0, w\<lparr>gz_state := (gz_state w)\<lparr>rx_ready := False\<rparr>\<rparr>))"
proof (intro conjI impI)
  assume "\<not> rx_ready (gz_state w)"
  with assms show "gz_recv (Some buf) (Some l) max_len w = (GZ_OK, Some buf, Some 0, w)"
    by (simp add: gz_recv_def)
next
  assume r: "rx_ready (gz_state w) \<and>
          unat (rx_length (gz_state w)) \<le> unat max_len \<and>
          unat (rx_length (gz_state w)) \<le> length (rx_buffer (gz_state w)) \<and>
          unat (rx_length (gz_state w)) \<le> length buf"
  with assms show "gz_recv (Some buf) (Some l) max_len w =
              (GZ_OK,
               Some (take (unat (rx_length (gz_state w))) (rx_buffer (gz_state w)) @
                     drop (unat (rx_length (gz_state w))) buf),
               Some (rx_length (gz_state w)),
               w\<lparr>gz_state := (gz_state w)\<lparr>rx_ready := False\<rparr>\<rparr>)"
    by (simp add: gz_recv_copy)
next
  from assms show "gz_recv (Some buf2) (Some l2) max_len2 (w\<lparr>gz_state := (gz_state w)\<lparr>rx_ready := False\<rparr>\<rparr>) =
              (GZ_OK, Some buf2, Some 0, w\<lparr>gz_state := (gz_state w)\<lparr>rx_ready := False\<rparr>\<rparr>)"
    by (simp add: gz_recv_def)
qed

text \<open>
  C3, as stated, fails for a call with a null output pointer: the link is initialized, in
  host role, with three bytes buffered and \<^verbatim>\<open>max_len\<close> 2, and \<^verbatim>\<open>gz_recv\<close> returns
  \<^verbatim>\<open>GZ_ERR_INVALID_CONFIG\<close>, not \<^verbatim>\<open>GZ_ERR_FRAME_TOO_LARGE\<close>.
\<close>

theorem gz_recv_null_pointer:
  "initialized (gz_state world_host_rx) \<and> mode (gz_state world_host_rx) = GZ_MODE_HOST \<and>
   rx_ready (gz_state world_host_rx) \<and> 2 < rx_length (gz_state world_host_rx) \<and>
   gz_recv None (Some 0) 2 world_host_rx = (GZ_ERR_INVALID_CONFIG, None, Some 0, world_host_rx)"
  by (simp add: gz_recv_def world_host_rx_def gz_state_zero_def)

text \<open>
  C3, amended. On an initialized link in host role, with both output pointers non-null,
  \<^verbatim>\<open>rx_ready\<close> true and a buffered length above \<^verbatim>\<open>max_len\<close>, \<^verbatim>\<open>gz_recv\<close> returns
  \<^verbatim>\<open>GZ_ERR_FRAME_TOO_LARGE\<close> and changes nothing: not the struct (\<^verbatim>\<open>rx_ready\<close>,
  \<^verbatim>\<open>rx_buffer\<close>, \<^verbatim>\<open>rx_length\<close>), not the outputs. So a \<^verbatim>\<open>gz_recv\<close> that follows with
  non-null pointers and a \<^verbatim>\<open>max_len\<close> of at least the buffered length returns
  \<^verbatim>\<open>GZ_OK\<close> with the buffered bytes.
\<close>

theorem gz_recv_frame_too_large:
  assumes "initialized (gz_state w)" and "mode (gz_state w) = GZ_MODE_HOST"
    and "rx_ready (gz_state w)" and "unat max_len < unat (rx_length (gz_state w))"
  shows "gz_recv (Some buf) (Some l) max_len w = (GZ_ERR_FRAME_TOO_LARGE, Some buf, Some l, w) \<and>
         (unat (rx_length (gz_state w)) \<le> unat max_len2 \<and>
          unat (rx_length (gz_state w)) \<le> length (rx_buffer (gz_state w)) \<and>
          unat (rx_length (gz_state w)) \<le> length buf2 \<longrightarrow>
            gz_recv (Some buf2) (Some l2) max_len2 w =
              (GZ_OK,
               Some (take (unat (rx_length (gz_state w))) (rx_buffer (gz_state w)) @
                     drop (unat (rx_length (gz_state w))) buf2),
               Some (rx_length (gz_state w)),
               w\<lparr>gz_state := (gz_state w)\<lparr>rx_ready := False\<rparr>\<rparr>))"
proof -
  have first: "gz_recv (Some buf) (Some l) max_len w = (GZ_ERR_FRAME_TOO_LARGE, Some buf, Some l, w)"
    using assms by (simp add: gz_recv_def word_less_nat_alt)
  show ?thesis
    using assms(1-3) by (simp add: first gz_recv_copy)
qed

text \<open>
  Nothing buffered; then the three buffered bytes 7, 8, 9 into a buffer of five, and the
  call after it.
\<close>

theorem gz_recv_delivery_witness:
  "gz_recv (Some [0, 0, 0, 0]) (Some 9) 4 world_host = (GZ_OK, Some [0, 0, 0, 0], Some 0, world_host) \<and>
   gz_recv (Some [1, 1, 1, 1, 1]) (Some 0) 3 world_host_rx
     = (GZ_OK, Some [7, 8, 9, 1, 1], Some 3,
        world_host_rx\<lparr>gz_state := (gz_state world_host_rx)\<lparr>rx_ready := False\<rparr>\<rparr>) \<and>
   gz_recv (Some [7, 8, 9, 1, 1]) (Some 3) 3
       (world_host_rx\<lparr>gz_state := (gz_state world_host_rx)\<lparr>rx_ready := False\<rparr>\<rparr>)
     = (GZ_OK, Some [7, 8, 9, 1, 1], Some 0,
        world_host_rx\<lparr>gz_state := (gz_state world_host_rx)\<lparr>rx_ready := False\<rparr>\<rparr>)"
  using gz_recv_delivery [of world_host "[0, 0, 0, 0]" 9 4]
    gz_recv_delivery [of world_host_rx "[1, 1, 1, 1, 1]" 0 3 "[7, 8, 9, 1, 1]" 3 3]
  by (simp add: world_host_def world_host_rx_def gz_state_zero_def)

text \<open>Three bytes buffered: refused with room for two, delivered with room for four.\<close>

theorem gz_recv_frame_too_large_witness:
  "gz_recv (Some [1, 1]) (Some 0) 2 world_host_rx
     = (GZ_ERR_FRAME_TOO_LARGE, Some [1, 1], Some 0, world_host_rx) \<and>
   gz_recv (Some [1, 1, 1, 1]) (Some 0) 4 world_host_rx
     = (GZ_OK, Some [7, 8, 9, 1], Some 3,
        world_host_rx\<lparr>gz_state := (gz_state world_host_rx)\<lparr>rx_ready := False\<rparr>\<rparr>)"
  using gz_recv_frame_too_large [of world_host_rx 2 "[1, 1]" 0 4 "[1, 1, 1, 1]" 0]
  by (simp add: world_host_rx_def gz_state_zero_def)

section \<open>Before \<^verbatim>\<open>gz_init\<close>, after \<^verbatim>\<open>gz_deinit\<close>, and \<^verbatim>\<open>gz_set_mode\<close>\<close>

text \<open>
  When the wait for the engine to report disabled ends, the struct is as it was and the
  engine has been asked \<^verbatim>\<open>nrf_gzll_is_enabled\<close> at least once and nothing else.
\<close>

lemma wait_disabled_gz_state:
  fixes eng :: "'e nrf_engine"
  assumes "wait_disabled eng w = Some w'"
  shows "gz_state w' = gz_state w"
proof (rule wait_disabled.raw_induct [where P = "\<lambda>eng w w'. gz_state w' = gz_state w", OF _ assms])
  fix f :: "'e nrf_engine \<Rightarrow> 'e world \<Rightarrow> 'e world option"
  fix eng :: "'e nrf_engine" and w w' :: "'e world"
  assume IH: "\<And>eng w w'. f eng w = Some w' \<Longrightarrow> gz_state w' = gz_state w"
  assume eq: "(let rw = nrf eng Nrf_gzll_is_enabled w
               in if ret_bool (fst rw) then f eng (snd rw) else Some (snd rw)) = Some w'"
  show "gz_state w' = gz_state w"
  proof (cases "ret_bool (fst (nrf eng Nrf_gzll_is_enabled w))")
    case True
    with eq have "f eng (snd (nrf eng Nrf_gzll_is_enabled w)) = Some w'"
      by (simp add: Let_def)
    then have "gz_state w' = gz_state (snd (nrf eng Nrf_gzll_is_enabled w))"
      by (rule IH)
    then show ?thesis
      by simp
  next
    case False
    with eq have "w' = snd (nrf eng Nrf_gzll_is_enabled w)"
      by (simp add: Let_def)
    then show ?thesis
      by simp
  qed
qed

lemma wait_disabled_trace:
  fixes eng :: "'e nrf_engine"
  assumes "wait_disabled eng w = Some w'"
  shows "\<exists>k. nrf_trace w' = nrf_trace w @ replicate (Suc k) Nrf_gzll_is_enabled"
proof (rule wait_disabled.raw_induct
    [where P = "\<lambda>eng w w'. \<exists>k. nrf_trace w' = nrf_trace w @ replicate (Suc k) Nrf_gzll_is_enabled",
      OF _ assms])
  fix f :: "'e nrf_engine \<Rightarrow> 'e world \<Rightarrow> 'e world option"
  fix eng :: "'e nrf_engine" and w w' :: "'e world"
  assume IH: "\<And>eng w w'. f eng w = Some w' \<Longrightarrow>
                \<exists>k. nrf_trace w' = nrf_trace w @ replicate (Suc k) Nrf_gzll_is_enabled"
  assume eq: "(let rw = nrf eng Nrf_gzll_is_enabled w
               in if ret_bool (fst rw) then f eng (snd rw) else Some (snd rw)) = Some w'"
  show "\<exists>k. nrf_trace w' = nrf_trace w @ replicate (Suc k) Nrf_gzll_is_enabled"
  proof (cases "ret_bool (fst (nrf eng Nrf_gzll_is_enabled w))")
    case True
    with eq have "f eng (snd (nrf eng Nrf_gzll_is_enabled w)) = Some w'"
      by (simp add: Let_def)
    then obtain k where
      "nrf_trace w' = nrf_trace (snd (nrf eng Nrf_gzll_is_enabled w)) @
                        replicate (Suc k) Nrf_gzll_is_enabled"
      using IH by blast
    then have "nrf_trace w' = nrf_trace w @ replicate (Suc (Suc k)) Nrf_gzll_is_enabled"
      by simp
    then show ?thesis
      by blast
  next
    case False
    with eq have "w' = snd (nrf eng Nrf_gzll_is_enabled w)"
      by (simp add: Let_def)
    then have "nrf_trace w' = nrf_trace w @ replicate (Suc 0) Nrf_gzll_is_enabled"
      by simp
    then show ?thesis
      by blast
  qed
qed

text \<open>A \<^verbatim>\<open>gz_deinit\<close> that returns leaves the link not initialized.\<close>

lemma gz_deinit_clears:
  assumes "gz_deinit eng w0 = Some w"
  shows "\<not> initialized (gz_state w)"
  using assms by (auto simp: gz_deinit_def split: if_splits option.splits)

text \<open>
  C8, amended. On a link that is not initialized, be it before a successful
  \<^verbatim>\<open>gz_init\<close> or in the state a \<^verbatim>\<open>gz_deinit\<close> returned, \<^verbatim>\<open>gz_set_mode\<close>,
  \<^verbatim>\<open>gz_send\<close>, \<^verbatim>\<open>gz_recv\<close> and \<^verbatim>\<open>gz_flush\<close> return
  \<^verbatim>\<open>GZ_ERR_NOT_INITIALIZED\<close>; \<^verbatim>\<open>gz_is_ready\<close> returns false, since its result is a
  \<^verbatim>\<open>bool\<close>; \<^verbatim>\<open>gz_deinit\<close> returns at once. None of them changes the struct or
  calls the engine.
\<close>

theorem not_initialized_results:
  assumes "\<not> initialized (gz_state w) \<or> gz_deinit eng w0 = Some w"
  shows "gz_set_mode eng md w = Some (GZ_ERR_NOT_INITIALIZED, w) \<and>
         gz_send eng data len w = (GZ_ERR_NOT_INITIALIZED, w) \<and>
         gz_recv out_buf out_len max_len w = (GZ_ERR_NOT_INITIALIZED, out_buf, out_len, w) \<and>
         gz_flush eng w = (GZ_ERR_NOT_INITIALIZED, w) \<and>
         gz_is_ready eng w = (False, w) \<and>
         gz_deinit eng w = Some w"
proof -
  from assms have "\<not> initialized (gz_state w)"
    by (auto dest: gz_deinit_clears)
  then show ?thesis
    by (simp add: gz_set_mode_def gz_send_def gz_recv_def gz_flush_def gz_is_ready_def
          gz_deinit_def)
qed

text \<open>
  C8, as stated, fails for \<^verbatim>\<open>gz_is_ready\<close>: before \<^verbatim>\<open>gz_init\<close> it returns the
  \<^verbatim>\<open>bool\<close> false, which is not the error code \<^verbatim>\<open>GZ_ERR_NOT_INITIALIZED\<close>.
\<close>

theorem gz_is_ready_not_an_error:
  "\<not> initialized (gz_state world_zero) \<and>
   gz_returns sim_engine Gz_is_ready world_zero = Some (Ret_bool False) \<and>
   gz_returns sim_engine Gz_is_ready world_zero \<noteq> Some (Ret_error GZ_ERR_NOT_INITIALIZED)"
  by (simp add: gz_is_ready_def world_zero_def gz_state_zero_def)

text \<open>\<^verbatim>\<open>gz_deinit\<close> on the scripted engine, from host role with a packet buffered.\<close>

lemma sim_deinit:
  "gz_deinit sim_engine world_host_rx = Some world_after_deinit"
  apply (simp add: gz_deinit_def world_host_rx_def gz_state_zero_def world_after_deinit_def)
  apply (subst wait_disabled.simps)
  apply (simp add: nrf_def sim_engine_def sim_idle_def)
  done

text \<open>
  \<^verbatim>\<open>gz_set_mode\<close> looks at its argument after \<^verbatim>\<open>nrf_gzll_disable\<close> and the wait.
  With a mode that is neither enumerator, on an initialized link, it returns if and only
  if the wait ends, and then with \<^verbatim>\<open>GZ_ERR_INVALID_CONFIG\<close>, the struct unchanged,
  and the engine disabled and queried.
\<close>

lemma gz_set_mode_unrecognized:
  assumes "initialized (gz_state w)" and "md \<noteq> GZ_MODE_DEVICE" and "md \<noteq> GZ_MODE_HOST"
  shows "gz_set_mode eng md w =
           map_option (Pair GZ_ERR_INVALID_CONFIG)
             (wait_disabled eng (snd (nrf eng Nrf_gzll_disable w)))"
  using assms by (simp add: gz_set_mode_def split: option.splits)

lemma gz_set_mode_unrecognized_returns:
  assumes "initialized (gz_state w)" and "md \<noteq> GZ_MODE_DEVICE" and "md \<noteq> GZ_MODE_HOST"
    and "gz_set_mode eng md w = Some (e, w')"
  shows "e = GZ_ERR_INVALID_CONFIG \<and> gz_state w' = gz_state w \<and>
         (\<exists>k. nrf_trace w' =
                nrf_trace w @ Nrf_gzll_disable # replicate (Suc k) Nrf_gzll_is_enabled)"
proof -
  from assms have w': "wait_disabled eng (snd (nrf eng Nrf_gzll_disable w)) = Some w'"
    and e: "e = GZ_ERR_INVALID_CONFIG"
    by (auto simp: gz_set_mode_unrecognized)
  from wait_disabled_gz_state [OF w'] wait_disabled_trace [OF w'] e show ?thesis
    by simp
qed

text \<open>
  C1. The claim says that an unrecognized role is refused with \<^verbatim>\<open>GZ_ERR_INVALID_CONFIG\<close>
  before the engine is touched, the engine staying enabled. The code returns
  \<^verbatim>\<open>GZ_ERR_INVALID_CONFIG\<close> but has disabled the engine by then: with mode 2 on an
  initialized link in device role whose radio is enabled, the engine gets
  \<^verbatim>\<open>nrf_gzll_disable\<close> and \<^verbatim>\<open>nrf_gzll_is_enabled\<close>, and the radio is left disabled.
\<close>

theorem gz_set_mode_unrecognized_disables:
  "initialized (gz_state world_device) \<and> sim_enabled (nrf_state world_device) \<and>
   gz_set_mode sim_engine 2 world_device =
     Some (GZ_ERR_INVALID_CONFIG,
           \<lparr>gz_state = gz_state world_device,
            nrf_state = (nrf_state world_device)\<lparr>sim_enabled := False\<rparr>,
            nrf_trace = [Nrf_gzll_disable, Nrf_gzll_is_enabled]\<rparr>)"
  apply (simp add: gz_set_mode_def world_device_def gz_state_zero_def)
  apply (subst wait_disabled.simps)
  apply (simp add: nrf_def sim_engine_def sim_idle_def)
  done

text \<open>Before any \<^verbatim>\<open>gz_init\<close>, and in the state that \<^verbatim>\<open>gz_deinit\<close> returned.\<close>

theorem not_initialized_results_witness:
  "gz_set_mode sim_engine GZ_MODE_HOST world_zero = Some (GZ_ERR_NOT_INITIALIZED, world_zero) \<and>
   gz_send sim_engine (Some [5]) 1 world_zero = (GZ_ERR_NOT_INITIALIZED, world_zero) \<and>
   gz_recv (Some [0]) (Some 0) 1 world_zero
     = (GZ_ERR_NOT_INITIALIZED, Some [0], Some 0, world_zero) \<and>
   gz_flush sim_engine world_zero = (GZ_ERR_NOT_INITIALIZED, world_zero) \<and>
   gz_is_ready sim_engine world_zero = (False, world_zero) \<and>
   gz_deinit sim_engine world_zero = Some world_zero \<and>
   gz_deinit sim_engine world_host_rx = Some world_after_deinit \<and>
   gz_set_mode sim_engine GZ_MODE_HOST world_after_deinit
     = Some (GZ_ERR_NOT_INITIALIZED, world_after_deinit) \<and>
   gz_send sim_engine (Some [5]) 1 world_after_deinit
     = (GZ_ERR_NOT_INITIALIZED, world_after_deinit) \<and>
   gz_recv (Some [0]) (Some 0) 1 world_after_deinit
     = (GZ_ERR_NOT_INITIALIZED, Some [0], Some 0, world_after_deinit) \<and>
   gz_flush sim_engine world_after_deinit = (GZ_ERR_NOT_INITIALIZED, world_after_deinit) \<and>
   gz_is_ready sim_engine world_after_deinit = (False, world_after_deinit) \<and>
   gz_deinit sim_engine world_after_deinit = Some world_after_deinit"
proof -
  have zero: "\<not> initialized (gz_state world_zero)"
    by (simp add: world_zero_def gz_state_zero_def)
  have "\<not> initialized (gz_state world_zero) \<or> gz_deinit sim_engine world_zero = Some world_zero"
    using zero by simp
  note a = not_initialized_results [OF this, of GZ_MODE_HOST "Some [5]" 1 "Some [0]" "Some 0" 1]
  have "\<not> initialized (gz_state world_after_deinit) \<or>
        gz_deinit sim_engine world_host_rx = Some world_after_deinit"
    using sim_deinit by simp
  note b = not_initialized_results [OF this, of GZ_MODE_HOST "Some [5]" 1 "Some [0]" "Some 0" 1]
  from a b sim_deinit show ?thesis
    by simp
qed

section \<open>\<^verbatim>\<open>gz_send\<close>: the wait for the outcome\<close>

text \<open>Points where the interrupt may run add up, and a silent round moves two of them on.\<close>

lemma polled_add: "polled eng (m + n) w = polled eng n (polled eng m w)"
  by (induction m arbitrary: w) simp_all

lemma polled_2: "polled eng 2 w = interrupts eng (interrupts eng w)"
  by (simp add: numeral_2_eq_2)

lemma silent_shift: "silent eng (polled eng 2 w) j = silent eng w (Suc j)"
proof -
  have "polled eng (2 * j + 1) (polled eng 2 w) = polled eng (2 * Suc j + 1) w"
    using polled_add [of eng 2 "2 * j + 1" w] by simp
  moreover have "polled eng (2 * j + 2) (polled eng 2 w) = polled eng (2 * Suc j + 2) w"
    using polled_add [of eng 2 "2 * j + 2" w] by simp
  ultimately show ?thesis
    by (simp only: silent_def)
qed

text \<open>One pass through the loop, and any number of silent rounds.\<close>

lemma gz_send_wait_zero: "gz_send_wait eng 0 w = (GZ_ERR_SEND_FAILED, w)"
  by (subst gz_send_wait.simps) simp

lemma gz_send_wait_step:
  assumes "t \<noteq> 0"
  shows "gz_send_wait eng t w =
           (if tx_success (gz_state (polled eng 1 w)) then (GZ_OK, polled eng 1 w)
            else if tx_failed (gz_state (polled eng 2 w))
              then (GZ_ERR_SEND_FAILED, polled eng 2 w)
              else gz_send_wait eng (t - 1) (polled eng 2 w))"
  using assms by (subst gz_send_wait.simps) (simp add: Let_def word_gt_0 polled_2)

lemma gz_send_wait_silent:
  "unat t = k + m \<Longrightarrow> (\<forall>j<k. silent eng w j) \<Longrightarrow>
   gz_send_wait eng t w = gz_send_wait eng (of_nat m) (polled eng (2 * k) w)"
proof (induction k arbitrary: t w)
  case 0
  have "t = of_nat (unat t)"
    by simp
  with 0 have "t = of_nat m"
    by simp
  then show ?case
    by simp
next
  case (Suc k)
  from Suc.prems(1) have nz: "t \<noteq> 0"
    by (auto simp: unat_eq_0 [symmetric] simp del: unat_eq_0)
  with Suc.prems(1) have dec: "unat (t - 1) = k + m"
    by (simp add: unat_minus_one)
  from Suc.prems(2) have s0: "silent eng w 0"
    by simp
  have rest: "\<forall>j<k. silent eng (polled eng 2 w) j"
    using Suc.prems(2) by (simp add: silent_shift)
  have "gz_send_wait eng t w = gz_send_wait eng (t - 1) (polled eng 2 w)"
    using s0 by (simp add: gz_send_wait_step [OF nz] silent_def polled_2)
  also have "\<dots> = gz_send_wait eng (of_nat m) (polled eng (2 * k) (polled eng 2 w))"
    by (rule Suc.IH [OF dec rest])
  also have "polled eng (2 * k) (polled eng 2 w) = polled eng (2 * Suc k) w"
    using polled_add [of eng 2 "2 * k" w] by simp
  finally show ?case .
qed

text \<open>
  C2. On an initialized link in device role, with non-null data and a length from 1 to
  32, \<^verbatim>\<open>gz_send\<close> first clears \<^verbatim>\<open>tx_success\<close> and \<^verbatim>\<open>tx_failed\<close> and then offers the
  packet to the engine's outbound queue: \<open>w1\<close> is the state after that call, \<open>r\<close> its
  answer. If the queue refuses, \<^verbatim>\<open>gz_send\<close> returns \<^verbatim>\<open>GZ_ERR_BUSY\<close> in the state
  \<open>w1\<close>, without giving the interrupt a point to run. Otherwise it polls for at most
  100000 rounds: if round \<open>k\<close> is the first that is not silent, it returns \<^verbatim>\<open>GZ_OK\<close>
  when that round reads \<^verbatim>\<open>tx_success\<close> set, and \<^verbatim>\<open>GZ_ERR_SEND_FAILED\<close> when it reads
  \<^verbatim>\<open>tx_success\<close> clear and \<^verbatim>\<open>tx_failed\<close> set, in the state of that read; if all
  100000 rounds are silent it returns \<^verbatim>\<open>GZ_ERR_SEND_FAILED\<close>.
\<close>

theorem gz_send_outcome:
  assumes "initialized (gz_state w)" and "mode (gz_state w) = GZ_MODE_DEVICE"
    and "1 \<le> unat len" and "unat len \<le> 32"
    and enq: "nrf eng (Nrf_gzll_add_packet_to_tx_fifo 0 bytes (ucast len))
                (w\<lparr>gz_state := (gz_state w)\<lparr>tx_success := False, tx_failed := False\<rparr>\<rparr>)
              = (r, w1)"
  shows "gz_state w1 = (gz_state w)\<lparr>tx_success := False, tx_failed := False\<rparr> \<and>
         (\<not> ret_bool r \<longrightarrow> gz_send eng (Some bytes) len w = (GZ_ERR_BUSY, w1)) \<and>
         (ret_bool r \<and> k < 100000 \<and> (\<forall>j<k. silent eng w1 j) \<and>
          tx_success (gz_state (polled eng (2 * k + 1) w1)) \<longrightarrow>
            gz_send eng (Some bytes) len w = (GZ_OK, polled eng (2 * k + 1) w1)) \<and>
         (ret_bool r \<and> k < 100000 \<and> (\<forall>j<k. silent eng w1 j) \<and>
          \<not> tx_success (gz_state (polled eng (2 * k + 1) w1)) \<and>
          tx_failed (gz_state (polled eng (2 * k + 2) w1)) \<longrightarrow>
            gz_send eng (Some bytes) len w = (GZ_ERR_SEND_FAILED, polled eng (2 * k + 2) w1)) \<and>
         (ret_bool r \<and> (\<forall>j<100000. silent eng w1 j) \<longrightarrow>
            gz_send eng (Some bytes) len w = (GZ_ERR_SEND_FAILED, polled eng 200000 w1))"
proof -
  have len: "\<not> (len = 0 \<or> len > 32)"
    using assms(3,4) by (auto simp: word_less_nat_alt)
  have send: "gz_send eng (Some bytes) len w =
                (if \<not> ret_bool r then (GZ_ERR_BUSY, w1) else gz_send_wait eng 100000 w1)"
    using assms(1,2) len enq by (simp add: gz_send_def)
  have st: "gz_state w1 = (gz_state w)\<lparr>tx_success := False, tx_failed := False\<rparr>"
    using nrf_gz_state [of eng "Nrf_gzll_add_packet_to_tx_fifo 0 bytes (ucast len)"
        "w\<lparr>gz_state := (gz_state w)\<lparr>tx_success := False, tx_failed := False\<rparr>\<rparr>"]
    by (simp add: enq)
  have budget: "unat (100000 :: u32) = 100000"
    by simp
  have round: "gz_send_wait eng 100000 w1 =
                 (if tx_success (gz_state (polled eng (2 * k + 1) w1))
                  then (GZ_OK, polled eng (2 * k + 1) w1)
                  else if tx_failed (gz_state (polled eng (2 * k + 2) w1))
                    then (GZ_ERR_SEND_FAILED, polled eng (2 * k + 2) w1)
                    else gz_send_wait eng (of_nat (100000 - k) - 1) (polled eng (2 * k + 2) w1))"
    if k: "k < 100000" and quiet: "\<forall>j<k. silent eng w1 j"
  proof -
    from k have "unat (100000 :: u32) = k + (100000 - k)"
      by simp
    from gz_send_wait_silent [OF this quiet]
    have a: "gz_send_wait eng 100000 w1
            = gz_send_wait eng (of_nat (100000 - k)) (polled eng (2 * k) w1)" .
    have nz: "(of_nat (100000 - k) :: u32) \<noteq> 0"
    proof -
      have "unat (of_nat (100000 - k) :: u32) = 100000 - k"
        by (simp add: unat_of_nat)
      with k show ?thesis
        by (auto simp: unat_eq_0 [symmetric] simp del: unat_eq_0)
    qed
    have p: "polled eng 1 (polled eng (2 * k) w1) = polled eng (2 * k + 1) w1"
      "polled eng 2 (polled eng (2 * k) w1) = polled eng (2 * k + 2) w1"
      using polled_add [of eng "2 * k" 1 w1] polled_add [of eng "2 * k" 2 w1] by simp_all
    show ?thesis
      by (simp only: a gz_send_wait_step [OF nz] p)
  qed
  have timeout: "gz_send_wait eng 100000 w1 = (GZ_ERR_SEND_FAILED, polled eng 200000 w1)"
    if quiet: "\<forall>j<100000. silent eng w1 j"
  proof -
    have "unat (100000 :: u32) = 100000 + 0"
      by simp
    from gz_send_wait_silent [OF this quiet] show ?thesis
      by (simp add: gz_send_wait_zero)
  qed
  show ?thesis
    using st send round timeout by simp
qed

text \<open>The scripted engine with no callback left to raise, and its answer to a packet.\<close>

lemma sim_interrupts_idle:
  "sim_irqs (nrf_state w) = [] \<Longrightarrow> interrupts sim_engine w = w"
  by (simp add: interrupts_def sim_engine_def)

lemma sim_polled_idle:
  "sim_irqs (nrf_state w) = [] \<Longrightarrow> polled sim_engine n w = w"
  by (induction n) (simp_all add: sim_interrupts_idle)

lemma polled_numeral:
  "polled eng (numeral n) w = polled eng (pred_numeral n) (interrupts eng w)"
  by (simp add: numeral_eq_Suc)

text \<open>
  The four outcomes on the scripted engine: the queue full; an ACK in the second round,
  on a link whose \<^verbatim>\<open>tx_failed\<close> was set by an earlier send; a failure in the first
  round; and no callback at all for 100000 rounds.
\<close>

theorem gz_send_outcome_witness:
  "fst (gz_send sim_engine (Some [1, 2, 3]) 3 world_device_full) = GZ_ERR_BUSY \<and>
   fst (gz_send sim_engine (Some [1, 2, 3]) 3 world_device_ack) = GZ_OK \<and>
   tx_success (gz_state (snd (gz_send sim_engine (Some [1, 2, 3]) 3 world_device_ack))) \<and>
   \<not> tx_failed (gz_state (snd (gz_send sim_engine (Some [1, 2, 3]) 3 world_device_ack))) \<and>
   fst (gz_send sim_engine (Some [1, 2, 3]) 3 world_device_nack) = GZ_ERR_SEND_FAILED \<and>
   tx_failed (gz_state (snd (gz_send sim_engine (Some [1, 2, 3]) 3 world_device_nack))) \<and>
   fst (gz_send sim_engine (Some [1, 2, 3]) 3 world_device) = GZ_ERR_SEND_FAILED \<and>
   \<not> tx_failed (gz_state (snd (gz_send sim_engine (Some [1, 2, 3]) 3 world_device)))"
proof -
  let ?call = "Nrf_gzll_add_packet_to_tx_fifo 0 [1, 2, 3] (ucast (3 :: u8))"
  have len: "1 \<le> unat (3 :: u8)" "unat (3 :: u8) \<le> 32"
    by simp_all
  have busy: "fst (gz_send sim_engine (Some [1, 2, 3]) 3 world_device_full) = GZ_ERR_BUSY"
  proof -
    define w1 where "w1 = world_device_full\<lparr>nrf_trace := [?call]\<rparr>"
    have i: "initialized (gz_state world_device_full)" "mode (gz_state world_device_full) = 0"
      by (simp_all add: world_device_full_def world_device_def gz_state_zero_def)
    have enq: "nrf sim_engine ?call
                 (world_device_full\<lparr>gz_state := (gz_state world_device_full)
                    \<lparr>tx_success := False, tx_failed := False\<rparr>\<rparr>) = (Nrf_bool False, w1)"
      by (simp add: w1_def nrf_def sim_engine_def world_device_full_def world_device_def
            gz_state_zero_def sim_idle_def)
    from gz_send_outcome [OF i len enq, THEN conjunct2, THEN conjunct1] show ?thesis
      by simp
  qed
  have ack: "gz_send sim_engine (Some [1, 2, 3]) 3 world_device_ack
               = (GZ_OK, polled sim_engine (2 * 1 + 1)
                    (world_device\<lparr>nrf_state := (nrf_state world_device)
                         \<lparr>sim_tx_count := 1, sim_irqs := [[], [], [Device_tx_success 0]]\<rparr>,
                       nrf_trace := [?call]\<rparr>))"
  proof -
    define w1 where "w1 = world_device\<lparr>nrf_state := (nrf_state world_device)
                         \<lparr>sim_tx_count := 1, sim_irqs := [[], [], [Device_tx_success 0]]\<rparr>,
                       nrf_trace := [?call]\<rparr>"
    have i: "initialized (gz_state world_device_ack)" "mode (gz_state world_device_ack) = 0"
      by (simp_all add: world_device_ack_def world_device_def gz_state_zero_def)
    have enq: "nrf sim_engine ?call
                 (world_device_ack\<lparr>gz_state := (gz_state world_device_ack)
                    \<lparr>tx_success := False, tx_failed := False\<rparr>\<rparr>) = (Nrf_bool True, w1)"
      by (simp add: w1_def nrf_def sim_engine_def world_device_ack_def world_device_def
            gz_state_zero_def sim_idle_def)
    have pre: "ret_bool (Nrf_bool True) \<and> (1 :: nat) < 100000 \<and>
               (\<forall>j<1. silent sim_engine w1 j) \<and>
               tx_success (gz_state (polled sim_engine (2 * 1 + 1) w1))"
      by (simp add: w1_def silent_def polled_numeral interrupts_def sim_engine_def
            world_device_def gz_state_zero_def sim_idle_def nrf_gzll_device_tx_success_def)
    from gz_send_outcome [OF i len enq, where k = 1, THEN conjunct2, THEN conjunct2,
        THEN conjunct1, THEN mp, OF pre]
    show ?thesis
      by (simp only: w1_def)
  qed
  have nack: "gz_send sim_engine (Some [1, 2, 3]) 3 world_device_nack
               = (GZ_ERR_SEND_FAILED, polled sim_engine (2 * 0 + 2)
                    (world_device\<lparr>nrf_state := (nrf_state world_device)
                         \<lparr>sim_tx_count := 1, sim_irqs := [[], [Device_tx_failed 0]]\<rparr>,
                       nrf_trace := [?call]\<rparr>))"
  proof -
    define w1 where "w1 = world_device\<lparr>nrf_state := (nrf_state world_device)
                         \<lparr>sim_tx_count := 1, sim_irqs := [[], [Device_tx_failed 0]]\<rparr>,
                       nrf_trace := [?call]\<rparr>"
    have i: "initialized (gz_state world_device_nack)" "mode (gz_state world_device_nack) = 0"
      by (simp_all add: world_device_nack_def world_device_def gz_state_zero_def)
    have enq: "nrf sim_engine ?call
                 (world_device_nack\<lparr>gz_state := (gz_state world_device_nack)
                    \<lparr>tx_success := False, tx_failed := False\<rparr>\<rparr>) = (Nrf_bool True, w1)"
      by (simp add: w1_def nrf_def sim_engine_def world_device_nack_def world_device_def
            gz_state_zero_def sim_idle_def)
    have pre: "ret_bool (Nrf_bool True) \<and> (0 :: nat) < 100000 \<and>
               (\<forall>j<0. silent sim_engine w1 j) \<and>
               \<not> tx_success (gz_state (polled sim_engine (2 * 0 + 1) w1)) \<and>
               tx_failed (gz_state (polled sim_engine (2 * 0 + 2) w1))"
      by (simp add: w1_def polled_numeral interrupts_def sim_engine_def
            world_device_def gz_state_zero_def sim_idle_def nrf_gzll_device_tx_failed_def)
    from gz_send_outcome [OF i len enq, where k = 0, THEN conjunct2, THEN conjunct2,
        THEN conjunct2, THEN conjunct1, THEN mp, OF pre]
    show ?thesis
      by (simp only: w1_def)
  qed
  have timeout: "gz_send sim_engine (Some [1, 2, 3]) 3 world_device
               = (GZ_ERR_SEND_FAILED,
                  world_device\<lparr>nrf_state := (nrf_state world_device)\<lparr>sim_tx_count := 1\<rparr>,
                               nrf_trace := [?call]\<rparr>)"
  proof -
    define w1 where "w1 = world_device\<lparr>nrf_state := (nrf_state world_device)\<lparr>sim_tx_count := 1\<rparr>,
                               nrf_trace := [?call]\<rparr>"
    have i: "initialized (gz_state world_device)" "mode (gz_state world_device) = 0"
      by (simp_all add: world_device_def gz_state_zero_def)
    have enq: "nrf sim_engine ?call
                 (world_device\<lparr>gz_state := (gz_state world_device)
                    \<lparr>tx_success := False, tx_failed := False\<rparr>\<rparr>) = (Nrf_bool True, w1)"
      by (simp add: w1_def nrf_def sim_engine_def world_device_def
            gz_state_zero_def sim_idle_def)
    have idle: "sim_irqs (nrf_state w1) = []"
      by (simp add: w1_def world_device_def sim_idle_def)
    have flags: "\<not> tx_success (gz_state w1)" "\<not> tx_failed (gz_state w1)"
      by (simp_all add: w1_def world_device_def gz_state_zero_def)
    have pre: "ret_bool (Nrf_bool True) \<and> (\<forall>j<100000. silent sim_engine w1 j)"
      using flags by (simp only: silent_def sim_polled_idle [OF idle]) simp
    from gz_send_outcome [OF i len enq, THEN conjunct2, THEN conjunct2,
        THEN conjunct2, THEN conjunct2, THEN mp, OF pre]
    have "gz_send sim_engine (Some [1, 2, 3]) 3 world_device = (GZ_ERR_SEND_FAILED, w1)"
      by (simp only: sim_polled_idle [OF idle])
    then show ?thesis
      by (simp only: w1_def)
  qed
  have ack_end: "polled sim_engine (2 * 1 + 1)
                    (world_device\<lparr>nrf_state := (nrf_state world_device)
                         \<lparr>sim_tx_count := 1, sim_irqs := [[], [], [Device_tx_success 0]]\<rparr>,
                       nrf_trace := [?call]\<rparr>)
                 = world_device\<lparr>gz_state := (gz_state world_device)\<lparr>tx_success := True\<rparr>,
                     nrf_state := (nrf_state world_device)\<lparr>sim_tx_count := 1\<rparr>,
                     nrf_trace := [?call]\<rparr>"
    by (simp add: polled_numeral interrupts_def sim_engine_def world_device_def sim_idle_def
          nrf_gzll_device_tx_success_def)
  have nack_end: "polled sim_engine (2 * 0 + 2)
                    (world_device\<lparr>nrf_state := (nrf_state world_device)
                         \<lparr>sim_tx_count := 1, sim_irqs := [[], [Device_tx_failed 0]]\<rparr>,
                       nrf_trace := [?call]\<rparr>)
                 = world_device\<lparr>gz_state := (gz_state world_device)\<lparr>tx_failed := True\<rparr>,
                     nrf_state := (nrf_state world_device)\<lparr>sim_tx_count := 1\<rparr>,
                     nrf_trace := [?call]\<rparr>"
    by (simp add: polled_numeral interrupts_def sim_engine_def world_device_def sim_idle_def
          nrf_gzll_device_tx_failed_def)
  have "fst (gz_send sim_engine (Some [1, 2, 3]) 3 world_device_ack) = GZ_OK"
    by (simp only: ack fst_conv)
  moreover have "tx_success (gz_state (snd (gz_send sim_engine (Some [1, 2, 3]) 3 world_device_ack)))"
    "\<not> tx_failed (gz_state (snd (gz_send sim_engine (Some [1, 2, 3]) 3 world_device_ack)))"
    by (simp_all only: ack snd_conv ack_end) (simp_all add: world_device_def gz_state_zero_def)
  moreover have "fst (gz_send sim_engine (Some [1, 2, 3]) 3 world_device_nack) = GZ_ERR_SEND_FAILED"
    by (simp only: nack fst_conv)
  moreover have "tx_failed (gz_state (snd (gz_send sim_engine (Some [1, 2, 3]) 3 world_device_nack)))"
    by (simp only: nack snd_conv nack_end) simp
  moreover have "fst (gz_send sim_engine (Some [1, 2, 3]) 3 world_device) = GZ_ERR_SEND_FAILED"
    by (simp only: timeout fst_conv)
  moreover have "\<not> tx_failed (gz_state (snd (gz_send sim_engine (Some [1, 2, 3]) 3 world_device)))"
    by (simp only: timeout snd_conv) (simp add: world_device_def gz_state_zero_def)
  ultimately show ?thesis
    using busy by (simp only: simp_thms)
qed

end
